theory Spec2Isabelle
  imports Main
begin

section \<open>The task manager of \<^verbatim>\<open>cli_task_manager.py\<close>\<close>

text \<open>
  The program is one function \<^verbatim>\<open>main\<close>, run once per command line: it loads the
  tasks and the counter from \<^verbatim>\<open>tasks.json\<close>, executes one command on them and, for
  the commands that change something, writes them back. The model passes the state
  explicitly: the file before the run goes in, and the lines printed, the file after the
  run, the documents written and the values of the local variables \<^verbatim>\<open>tasks\<close> and
  \<^verbatim>\<open>next_id\<close> at the moment \<^verbatim>\<open>main\<close> returns come out.
\<close>

subsection \<open>Data\<close>

text \<open>
  A task is the dictionary \<^verbatim>\<open>{'id': ..., 'description': ..., 'estimate': ...}\<close> built
  at lines 42-46. Python integers are unbounded, so they are \<^typ>\<open>int\<close>.
\<close>

record task =
  task_id :: int
  task_description :: string
  task_estimate :: int

text \<open>
  What \<^verbatim>\<open>tasks.json\<close> holds, as far as \<^verbatim>\<open>load_tasks\<close> tells contents apart:
  text that \<^verbatim>\<open>json.load\<close> rejects, a JSON value that is not an object, or an object
  in which each of the keys \<^verbatim>\<open>tasks\<close> and \<^verbatim>\<open>next_id\<close> is present or absent. The
  file itself may not exist, which is \<^term>\<open>None\<close>. The values under the two keys are
  taken to have the shape \<^verbatim>\<open>save_tasks\<close> writes: a list of tasks and an integer.
\<close>

datatype file_content =
    Malformed
  | NonObject
  | Object "task list option" "int option"

type_synonym file_state = "file_content option"

text \<open>The exceptions that leave \<^verbatim>\<open>main\<close> uncaught.\<close>

datatype exn = JSONDecodeError | AttributeError

text \<open>
  The namespace \<^verbatim>\<open>argparse\<close> returns: \<^verbatim>\<open>command\<close> is positional and always
  present, the three options are \<^verbatim>\<open>None\<close> when not given, and \<^verbatim>\<open>--estimate\<close> and
  \<^verbatim>\<open>--id\<close> are converted with \<^verbatim>\<open>int\<close>.
\<close>

record args =
  command :: string
  description :: "string option"
  estimate :: "int option"
  arg_id :: "int option"

text \<open>The state of one run.\<close>

record run =
  stdout :: "string list"
  tasks_file :: file_state
  written :: "(task list \<times> int) list"
  tasks :: "task list"
  next_id :: int

subsection \<open>Formatting integers\<close>

text \<open>What an f-string makes of an integer: its decimal digits, with a sign when negative.\<close>

function str_nat :: "nat \<Rightarrow> string" where
  "str_nat n =
     (if n < 10 then [''0123456789'' ! n]
      else str_nat (n div 10) @ [''0123456789'' ! (n mod 10)])"
  by pat_completeness auto
termination
  by (relation "measure (\<lambda>n. n)") auto

declare str_nat.simps [simp del]

definition str_int :: "int \<Rightarrow> string" where
  "str_int i = (if i < 0 then CHR ''-'' # str_nat (nat (- i)) else str_nat (nat i))"

subsection \<open>The store\<close>

fun load_tasks :: "file_state \<Rightarrow> exn + (task list \<times> int)" where
  "load_tasks None = Inr ([], 1)"
| "load_tasks (Some Malformed) = Inl JSONDecodeError"
| "load_tasks (Some NonObject) = Inl AttributeError"
| "load_tasks (Some (Object ts n)) =
     Inr (case ts of None \<Rightarrow> [] | Some l \<Rightarrow> l, case n of None \<Rightarrow> 1 | Some k \<Rightarrow> k)"

definition save_tasks :: "task list \<Rightarrow> int \<Rightarrow> run \<Rightarrow> run" where
  "save_tasks ts n r =
     r\<lparr>tasks_file := Some (Object (Some ts) (Some n)), written := written r @ [(ts, n)]\<rparr>"

definition print :: "string \<Rightarrow> run \<Rightarrow> run" where
  "print s r = r\<lparr>stdout := stdout r @ [s]\<rparr>"

subsection \<open>The commands\<close>

text \<open>
  The search loop of lines 64-68 and 81-85: the position of the first task whose id is
  the one asked for, \<^term>\<open>None\<close> when the loop ends without \<^verbatim>\<open>break\<close>.
  \<^verbatim>\<open>found_task\<close> is a reference to that element of \<^verbatim>\<open>tasks\<close>, so an assignment to
  one of its keys is an update of the list at that position.
\<close>

fun find_task :: "task list \<Rightarrow> int \<Rightarrow> nat option" where
  "find_task [] i = None"
| "find_task (t # ts) i =
     (if task_id t = i then Some 0 else map_option Suc (find_task ts i))"

text \<open>Lines 30-51.\<close>

definition main_add :: "args \<Rightarrow> run \<Rightarrow> run" where
  "main_add a r =
     (if description a = None \<or> description a = Some []
      then print ''Error: Task description is required for 'add' command.'' r
      else if (case estimate a of None \<Rightarrow> False | Some e \<Rightarrow> e < 0)
      then print ''Error: Estimate cannot be negative.'' r
      else
        let t = \<lparr>task_id = next_id r,
                 task_description = the (description a),
                 task_estimate = (case estimate a of None \<Rightarrow> 0 | Some e \<Rightarrow> e)\<rparr>;
            r1 = r\<lparr>tasks := tasks r @ [t]\<rparr>;
            r2 = r1\<lparr>next_id := next_id r1 + 1\<rparr>;
            r3 = save_tasks (tasks r2) (next_id r2) r2;
            r4 = print (''Task '' @ [CHR 0x27] @ task_description t @ [CHR 0x27] @
                        '' added with ID '' @
                        str_int (task_id t) @ '' and estimate '' @
                        str_int (task_estimate t) @ '' hours.'') r3
        in save_tasks (tasks r4) (next_id r4) r4)"

text \<open>Lines 52-58.\<close>

definition list_line :: "task \<Rightarrow> string" where
  "list_line t = ''  ID: '' @ str_int (task_id t) @ '', Description: '' @
     task_description t @ '', Estimate: '' @ str_int (task_estimate t) @ '' hours''"

definition main_list :: "run \<Rightarrow> run" where
  "main_list r =
     (if tasks r = [] then print ''No tasks found.'' r
      else fold (\<lambda>t. print (list_line t)) (tasks r) (print ''Tasks:'' r))"

text \<open>Lines 59-75.\<close>

definition main_view :: "args \<Rightarrow> run \<Rightarrow> run" where
  "main_view a r =
     (if arg_id a = None \<or> arg_id a = Some 0
      then print ''Error: Task ID is required for 'view' command.'' r
      else
        case find_task (tasks r) (the (arg_id a)) of
          Some k \<Rightarrow>
            let found_task = tasks r ! k;
                r1 = print (''Task ID: '' @ str_int (task_id found_task)) r;
                r2 = print (''Description: '' @ task_description found_task) r1
            in print (''Estimate: '' @ str_int (task_estimate found_task) @ '' hours'') r2
        | None \<Rightarrow>
            print (''Error: Task with ID '' @ str_int (the (arg_id a)) @ '' not found.'') r)"

text \<open>Lines 76-100.\<close>

definition main_edit :: "args \<Rightarrow> run \<Rightarrow> run" where
  "main_edit a r =
     (if arg_id a = None \<or> arg_id a = Some 0
      then print ''Error: Task ID is required for 'edit' command.'' r
      else
        case find_task (tasks r) (the (arg_id a)) of
          Some k \<Rightarrow>
            let r1 = (if description a = None \<or> description a = Some [] then r
                      else r\<lparr>tasks := (tasks r)
                             [k := (tasks r ! k)\<lparr>task_description := the (description a)\<rparr>]\<rparr>)
            in (case estimate a of
                  Some e \<Rightarrow>
                    if e < 0 then print ''Error: Estimate cannot be negative.'' r1
                    else
                      let r2 = r1\<lparr>tasks := (tasks r1)
                                 [k := (tasks r1 ! k)\<lparr>task_estimate := e\<rparr>]\<rparr>;
                          r3 = save_tasks (tasks r2) (next_id r2) r2
                      in print (''Task '' @ str_int (task_id (tasks r3 ! k)) @ '' updated.'') r3
                | None \<Rightarrow>
                    let r3 = save_tasks (tasks r1) (next_id r1) r1
                    in print (''Task '' @ str_int (task_id (tasks r3 ! k)) @ '' updated.'') r3)
        | None \<Rightarrow>
            print (''Error: Task with ID '' @ str_int (the (arg_id a)) @ '' not found.'') r)"

text \<open>
  Lines 19-102. An exception of \<^verbatim>\<open>load_tasks\<close> ends the run before any command is
  looked at.
\<close>

definition main :: "args \<Rightarrow> file_state \<Rightarrow> exn + run" where
  "main a f =
     (case load_tasks f of
        Inl e \<Rightarrow> Inl e
      | Inr (ts, n) \<Rightarrow>
          let r = \<lparr>stdout = [], tasks_file = f, written = [], tasks = ts, next_id = n\<rparr>
          in Inr (if command a = ''add'' then main_add a r
                  else if command a = ''list'' then main_list r
                  else if command a = ''view'' then main_view a r
                  else if command a = ''edit'' then main_edit a r
                  else print (''Unknown command: '' @ command a) r))"

text \<open>
  The files the program can leave behind when it starts without one: the runs of
  \<^verbatim>\<open>main\<close>, each on the file the one before it left.
\<close>

inductive reachable :: "file_state \<Rightarrow> bool" where
  no_file: "reachable None"
| after_run: "reachable f \<Longrightarrow> main a f = Inr r \<Longrightarrow> reachable (tasks_file r)"

section \<open>Properties\<close>

subsection \<open>The search loop\<close>

lemma find_task_None: "find_task ts i = None \<longleftrightarrow> (\<forall>t\<in>set ts. task_id t \<noteq> i)"
  by (induction ts) auto

lemma find_task_Some:
  "find_task ts i = Some k \<Longrightarrow>
     k < length ts \<and> task_id (ts ! k) = i \<and> (\<forall>j<k. task_id (ts ! j) \<noteq> i)"
proof (induction ts arbitrary: k)
  case Nil
  then show ?case by simp
next
  case (Cons t ts)
  show ?case
  proof (cases "task_id t = i")
    case True
    with Cons.prems show ?thesis by simp
  next
    case False
    with Cons.prems obtain k' where k': "find_task ts i = Some k'" "k = Suc k'"
      by auto
    from Cons.IH [OF k'(1)] k'(2) False show ?thesis
      by (auto simp: nth_Cons split: nat.splits)
  qed
qed

lemma find_task_member: "i \<in> task_id ` set ts \<Longrightarrow> \<exists>k. find_task ts i = Some k"
  using find_task_None [of ts i] by (cases "find_task ts i") auto

lemma find_task_append:
  "\<forall>t\<in>set ts. task_id t \<noteq> i \<Longrightarrow>
     find_task (ts @ [t]) i = (if task_id t = i then Some (length ts) else None)"
  by (induction ts) auto

subsection \<open>What a run does once the file is loaded\<close>

lemma main_loaded:
  "load_tasks f = Inr (ts, n) \<Longrightarrow>
   main a f = Inr (let r = \<lparr>stdout = [], tasks_file = f, written = [], tasks = ts, next_id = n\<rparr>
     in if command a = ''add'' then main_add a r
        else if command a = ''list'' then main_list r
        else if command a = ''view'' then main_view a r
        else if command a = ''edit'' then main_edit a r
        else print (''Unknown command: '' @ command a) r)"
  by (simp add: main_def Let_def)

lemma fold_print: "fold (\<lambda>t. print (g t)) xs r = r\<lparr>stdout := stdout r @ map g xs\<rparr>"
  by (induction xs arbitrary: r) (simp_all add: print_def)

text \<open>
  \<^verbatim>\<open>edit\<close> on an id that is not 0 and that the loop finds at position \<open>k\<close>: the
  description is assigned first, when one is given and is not empty; a negative estimate
  then ends the run before \<^verbatim>\<open>save_tasks\<close>.
\<close>

lemma main_edit_found:
  assumes "find_task ts i = Some k" and "arg_id a = Some i" and "i \<noteq> 0"
  shows "main_edit a \<lparr>stdout = [], tasks_file = f, written = [], tasks = ts, next_id = n\<rparr> =
    (let t1 = (if description a = None \<or> description a = Some [] then ts ! k
               else (ts ! k)\<lparr>task_description := the (description a)\<rparr>)
     in case estimate a of
          Some e \<Rightarrow>
            if e < 0
            then \<lparr>stdout = [''Error: Estimate cannot be negative.''], tasks_file = f,
                  written = [], tasks = ts[k := t1], next_id = n\<rparr>
            else \<lparr>stdout = [''Task '' @ str_int i @ '' updated.''],
                  tasks_file = Some (Object (Some (ts[k := t1\<lparr>task_estimate := e\<rparr>])) (Some n)),
                  written = [(ts[k := t1\<lparr>task_estimate := e\<rparr>], n)],
                  tasks = ts[k := t1\<lparr>task_estimate := e\<rparr>], next_id = n\<rparr>
        | None \<Rightarrow>
            \<lparr>stdout = [''Task '' @ str_int i @ '' updated.''],
             tasks_file = Some (Object (Some (ts[k := t1])) (Some n)),
             written = [(ts[k := t1], n)], tasks = ts[k := t1], next_id = n\<rparr>)"
proof -
  from find_task_Some [OF assms(1)] have k: "k < length ts" "task_id (ts ! k) = i"
    by simp_all
  with assms show ?thesis
    by (simp add: main_edit_def Let_def save_tasks_def print_def split: option.splits)
qed

text \<open>
  What any run does to the ids and the counter: nothing, or (a successful \<^verbatim>\<open>add\<close>)
  the counter's value becomes the id of a new last task and the counter goes up by one.
  The file is untouched or holds the tasks and the counter of the end of the run.
\<close>

lemma main_ids:
  assumes "load_tasks f = Inr (ts, n)"
  shows "\<exists>r. main a f = Inr r
     \<and> (next_id r = n \<and> map task_id (tasks r) = map task_id ts
        \<or> next_id r = n + 1 \<and> map task_id (tasks r) = map task_id ts @ [n])
     \<and> (tasks_file r = f \<or> tasks_file r = Some (Object (Some (tasks r)) (Some (next_id r))))"
proof -
  let ?r = "\<lparr>stdout = [], tasks_file = f, written = [], tasks = ts, next_id = n\<rparr>"
  have add: "next_id (main_add a ?r) = n \<and> tasks (main_add a ?r) = ts \<and> tasks_file (main_add a ?r) = f
     \<or> next_id (main_add a ?r) = n + 1 \<and> map task_id (tasks (main_add a ?r)) = map task_id ts @ [n]
        \<and> tasks_file (main_add a ?r) = Some (Object (Some (tasks (main_add a ?r))) (Some (n + 1)))"
    by (simp add: main_add_def print_def save_tasks_def Let_def)
  have list: "next_id (main_list ?r) = n \<and> tasks (main_list ?r) = ts \<and> tasks_file (main_list ?r) = f"
    by (simp add: main_list_def print_def fold_print)
  have view: "next_id (main_view a ?r) = n \<and> tasks (main_view a ?r) = ts \<and> tasks_file (main_view a ?r) = f"
    by (simp add: main_view_def print_def Let_def split: option.splits)
  have edit: "next_id (main_edit a ?r) = n \<and> map task_id (tasks (main_edit a ?r)) = map task_id ts
     \<and> (tasks_file (main_edit a ?r) = f
        \<or> tasks_file (main_edit a ?r) = Some (Object (Some (tasks (main_edit a ?r))) (Some n)))"
  proof (cases "find_task ts (the (arg_id a))")
    case None
    then show ?thesis
      by (simp add: main_edit_def print_def)
  next
    case (Some k)
    from find_task_Some [OF Some] have k: "k < length ts" by simp
    then have "map task_id (ts[k := (ts ! k)\<lparr>task_description := d\<rparr>]) = map task_id ts"
      "map task_id (ts[k := (ts ! k)\<lparr>task_estimate := e\<rparr>]) = map task_id ts"
      "map task_id (ts[k := (ts ! k)\<lparr>task_description := d, task_estimate := e\<rparr>]) = map task_id ts"
      for d e
      by (simp_all add: map_update list_update_same_conv)
    with Some k show ?thesis
      by (simp add: main_edit_def print_def save_tasks_def Let_def split: option.splits)
  qed
  show ?thesis
    using add list view edit assms
    by (auto simp add: main_loaded Let_def print_def)
qed

text \<open>
  Ids are positive and below the counter in every file the program leaves when it starts
  without one.
\<close>

lemma main_preserves_document:
  assumes "load_tasks f = Inr (ts, n)" and "0 < n"
    and "\<forall>t\<in>set ts. 0 < task_id t \<and> task_id t < n"
  shows "\<exists>r. main a f = Inr r \<and> 0 < next_id r
     \<and> (\<forall>t\<in>set (tasks r). 0 < task_id t \<and> task_id t < next_id r)
     \<and> (tasks_file r = f \<or> tasks_file r = Some (Object (Some (tasks r)) (Some (next_id r))))"
proof -
  from main_ids [OF assms(1), of a] obtain r where r: "main a f = Inr r"
    and ids: "next_id r = n \<and> map task_id (tasks r) = map task_id ts
        \<or> next_id r = n + 1 \<and> map task_id (tasks r) = map task_id ts @ [n]"
    and fl: "tasks_file r = f \<or> tasks_file r = Some (Object (Some (tasks r)) (Some (next_id r)))"
    by blast
  from assms(3) have old: "\<forall>x\<in>set (map task_id ts). 0 < x \<and> x < n"
    by simp
  from ids old assms(2) have "0 < next_id r \<and> (\<forall>x\<in>set (map task_id (tasks r)). 0 < x \<and> x < next_id r)"
    by (elim disjE conjE) (simp only:, force)+
  then have "0 < next_id r \<and> (\<forall>t\<in>set (tasks r). 0 < task_id t \<and> task_id t < next_id r)"
    by simp
  with r fl show ?thesis by blast
qed

lemma reachable_document:
  "reachable f \<Longrightarrow>
     \<exists>ts n. load_tasks f = Inr (ts, n) \<and> 0 < n \<and> (\<forall>t\<in>set ts. 0 < task_id t \<and> task_id t < n)"
proof (induction rule: reachable.induct)
  case no_file
  show ?case by simp
next
  case (after_run f a r)
  from after_run.IH obtain ts n where l: "load_tasks f = Inr (ts, n)" and n: "0 < n"
    and ids: "\<forall>t\<in>set ts. 0 < task_id t \<and> task_id t < n"
    by blast
  from main_preserves_document [OF l n ids, of a] after_run.hyps(2)
  have r: "0 < next_id r" "\<forall>t\<in>set (tasks r). 0 < task_id t \<and> task_id t < next_id r"
    "tasks_file r = f \<or> tasks_file r = Some (Object (Some (tasks r)) (Some (next_id r)))"
    by auto
  from r(3) show ?case
  proof
    assume "tasks_file r = f"
    with l n ids show ?thesis by auto
  next
    assume "tasks_file r = Some (Object (Some (tasks r)) (Some (next_id r)))"
    with r(1,2) show ?thesis by auto
  qed
qed

text \<open>The file after the first \<^verbatim>\<open>add\<close> of the specification's scenario.\<close>

lemma reachable_first_add:
  "reachable (Some (Object
     (Some [\<lparr>task_id = 1, task_description = ''write spec'', task_estimate = 3\<rparr>]) (Some 2)))"
proof -
  have "\<exists>r. main \<lparr>command = ''add'', description = Some ''write spec'', estimate = Some 3,
         arg_id = None\<rparr> None = Inr r
     \<and> tasks_file r = Some (Object
         (Some [\<lparr>task_id = 1, task_description = ''write spec'', task_estimate = 3\<rparr>]) (Some 2))"
    by (simp add: main_def main_add_def save_tasks_def print_def Let_def)
  then obtain r where "main \<lparr>command = ''add'', description = Some ''write spec'',
      estimate = Some 3, arg_id = None\<rparr> None = Inr r"
    and "tasks_file r = Some (Object
         (Some [\<lparr>task_id = 1, task_description = ''write spec'', task_estimate = 3\<rparr>]) (Some 2))"
    by blast
  with reachable.after_run [OF reachable.no_file, of _ r] show ?thesis
    by metis
qed

lemma str_int_1: "str_int 1 = ''1''"
  by code_simp

lemma str_int_3: "str_int 3 = ''3''"
  by code_simp

lemma str_int_minus_1: "str_int (- 1) = ''-1''"
  by code_simp

subsection \<open>\<^verbatim>\<open>add\<close>\<close>

text \<open>
  C1. \<^verbatim>\<open>add\<close> with a description that is not empty and an estimate that is not
  negative, on any document \<open>(ts, n)\<close> that \<^verbatim>\<open>load_tasks\<close> returns: the new task has
  the id \<open>n\<close>, the description and the estimate given; it is appended to the tasks, the
  counter becomes \<open>n + 1\<close>, and this document is what \<^verbatim>\<open>save_tasks\<close> writes (twice,
  lines 49 and 51) and what the file holds afterwards. One line is printed.
\<close>

theorem add_appends_task:
  assumes "load_tasks f = Inr (ts, n)"
    and "command a = ''add''" and "description a = Some d" and "estimate a = Some e"
    and "d \<noteq> []" and "0 \<le> e"
  shows "main a f = Inr
     \<lparr>stdout = [''Task '' @ [CHR 0x27] @ d @ [CHR 0x27] @ '' added with ID '' @ str_int n @
                 '' and estimate '' @ str_int e @ '' hours.''],
      tasks_file = Some (Object
        (Some (ts @ [\<lparr>task_id = n, task_description = d, task_estimate = e\<rparr>])) (Some (n + 1))),
      written = [(ts @ [\<lparr>task_id = n, task_description = d, task_estimate = e\<rparr>], n + 1),
                 (ts @ [\<lparr>task_id = n, task_description = d, task_estimate = e\<rparr>], n + 1)],
      tasks = ts @ [\<lparr>task_id = n, task_description = d, task_estimate = e\<rparr>],
      next_id = n + 1\<rparr>"
  using assms by (simp add: main_loaded main_add_def save_tasks_def print_def Let_def)

text \<open>The scenario of the specification: the first task of an empty store.\<close>

theorem add_appends_task_witness:
  "main \<lparr>command = ''add'', description = Some ''write spec'', estimate = Some 3,
         arg_id = None\<rparr> None
   = Inr \<lparr>stdout = [''Task '' @ [CHR 0x27] @ ''write spec'' @ [CHR 0x27] @
                    '' added with ID 1 and estimate 3 hours.''],
      tasks_file = Some (Object
        (Some [\<lparr>task_id = 1, task_description = ''write spec'', task_estimate = 3\<rparr>]) (Some 2)),
      written = [([\<lparr>task_id = 1, task_description = ''write spec'', task_estimate = 3\<rparr>], 2),
                 ([\<lparr>task_id = 1, task_description = ''write spec'', task_estimate = 3\<rparr>], 2)],
      tasks = [\<lparr>task_id = 1, task_description = ''write spec'', task_estimate = 3\<rparr>],
      next_id = 2\<rparr>"
  using add_appends_task [of None "[]" 1
      "\<lparr>command = ''add'', description = Some ''write spec'', estimate = Some 3, arg_id = None\<rparr>"
      "''write spec''" 3]
  by (simp add: str_int_1 str_int_3)

text \<open>When \<^verbatim>\<open>--estimate\<close> is not given the task gets the estimate 0 (line 35).\<close>

lemma add_default_estimate:
  assumes "load_tasks f = Inr (ts, n)"
    and "command a = ''add''" and "description a = Some d" and "estimate a = None"
    and "d \<noteq> []"
  shows "\<exists>r. main a f = Inr r
     \<and> tasks r = ts @ [\<lparr>task_id = n, task_description = d, task_estimate = 0\<rparr>]
     \<and> next_id r = n + 1
     \<and> tasks_file r = Some (Object (Some (tasks r)) (Some (next_id r)))"
  using assms by (simp add: main_loaded main_add_def save_tasks_def print_def Let_def)

text \<open>
  C2. \<^verbatim>\<open>add\<close> with no description, with the empty description, or with a negative
  estimate prints the error of lines 32 or 38 and returns: the tasks and the counter are
  what was loaded, \<^verbatim>\<open>save_tasks\<close> is not called and the file is as before.
\<close>

theorem add_rejects_invalid:
  assumes "load_tasks f = Inr (ts, n)" and "command a = ''add''"
    and "description a = None \<or> description a = Some [] \<or> (\<exists>e. estimate a = Some e \<and> e < 0)"
  shows "main a f = Inr
     \<lparr>stdout = [if description a = None \<or> description a = Some []
                 then ''Error: Task description is required for 'add' command.''
                 else ''Error: Estimate cannot be negative.''],
      tasks_file = f, written = [], tasks = ts, next_id = n\<rparr>"
  using assms by (auto simp add: main_loaded main_add_def print_def Let_def)

theorem add_rejects_invalid_witness:
  "main \<lparr>command = ''add'', description = Some ''write spec'', estimate = Some (- 1),
         arg_id = None\<rparr>
     (Some (Object (Some [\<lparr>task_id = 1, task_description = ''a'', task_estimate = 0\<rparr>]) (Some 2)))
   = Inr \<lparr>stdout = [''Error: Estimate cannot be negative.''],
      tasks_file =
        Some (Object (Some [\<lparr>task_id = 1, task_description = ''a'', task_estimate = 0\<rparr>]) (Some 2)),
      written = [],
      tasks = [\<lparr>task_id = 1, task_description = ''a'', task_estimate = 0\<rparr>],
      next_id = 2\<rparr>"
  using add_rejects_invalid [of
      "Some (Object (Some [\<lparr>task_id = 1, task_description = ''a'', task_estimate = 0\<rparr>]) (Some 2))"
      "[\<lparr>task_id = 1, task_description = ''a'', task_estimate = 0\<rparr>]" 2
      "\<lparr>command = ''add'', description = Some ''write spec'', estimate = Some (- 1),
        arg_id = None\<rparr>"]
  by simp

subsection \<open>\<^verbatim>\<open>view\<close> and \<^verbatim>\<open>edit\<close> on an id that no task has\<close>

text \<open>
  C3, as stated, at the id 0 on the empty store: no task has the id 0, and \<^verbatim>\<open>view\<close>
  prints the message of line 61, not the one of line 75.
\<close>

theorem view_zero_id_counterexample:
  "find_task [] 0 = None
   \<and> main \<lparr>command = ''view'', description = None, estimate = None, arg_id = Some 0\<rparr> None
       = Inr \<lparr>stdout = [''Error: Task ID is required for 'view' command.''],
              tasks_file = None, written = [], tasks = [], next_id = 1\<rparr>
   \<and> main \<lparr>command = ''view'', description = None, estimate = None, arg_id = Some 0\<rparr> None
       \<noteq> Inr \<lparr>stdout = [''Error: Task with ID '' @ str_int 0 @ '' not found.''],
              tasks_file = None, written = [], tasks = [], next_id = 1\<rparr>"
  by (simp add: main_def main_view_def print_def)

text \<open>
  C3, amended: for every id other than 0 that no task of the document has, \<^verbatim>\<open>view\<close>
  and \<^verbatim>\<open>edit\<close> print the not-found message (lines 75 and 100); the tasks and the
  counter are what was loaded, \<^verbatim>\<open>save_tasks\<close> is not called and the file is as before.
\<close>

theorem unknown_id_not_found:
  assumes "load_tasks f = Inr (ts, n)" and "\<forall>t\<in>set ts. task_id t \<noteq> i" and "i \<noteq> 0"
    and "arg_id a = Some i" and "command a = ''view'' \<or> command a = ''edit''"
  shows "main a f = Inr
     \<lparr>stdout = [''Error: Task with ID '' @ str_int i @ '' not found.''],
      tasks_file = f, written = [], tasks = ts, next_id = n\<rparr>"
proof -
  from assms(2) have "find_task ts i = None"
    by (simp add: find_task_None)
  with assms show ?thesis
    by (auto simp add: main_loaded main_view_def main_edit_def print_def)
qed

theorem unknown_id_not_found_witness:
  "main \<lparr>command = ''edit'', description = Some ''b'', estimate = Some 4, arg_id = Some 3\<rparr>
     (Some (Object (Some [\<lparr>task_id = 1, task_description = ''a'', task_estimate = 0\<rparr>]) (Some 2)))
   = Inr \<lparr>stdout = [''Error: Task with ID 3 not found.''],
      tasks_file =
        Some (Object (Some [\<lparr>task_id = 1, task_description = ''a'', task_estimate = 0\<rparr>]) (Some 2)),
      written = [],
      tasks = [\<lparr>task_id = 1, task_description = ''a'', task_estimate = 0\<rparr>],
      next_id = 2\<rparr>"
  using unknown_id_not_found [of
      "Some (Object (Some [\<lparr>task_id = 1, task_description = ''a'', task_estimate = 0\<rparr>]) (Some 2))"
      "[\<lparr>task_id = 1, task_description = ''a'', task_estimate = 0\<rparr>]" 2 3
      "\<lparr>command = ''edit'', description = Some ''b'', estimate = Some 4, arg_id = Some 3\<rparr>"]
  by (simp add: str_int_3)

subsection \<open>\<^verbatim>\<open>edit\<close> on an id that a task has\<close>

text \<open>
  C4. \<^verbatim>\<open>edit\<close> on a document in which some task has the id given: the tasks after the
  run are the tasks before with one position \<open>k\<close>, that of a task with this id,
  replaced by a task \<open>t'\<close> of the same id, so every other task and the order are as
  before; \<open>t'\<close> has the estimate of before when no estimate is given and the description
  of before when no description is given. The counter is unchanged, and the file either is
  untouched or holds exactly these tasks and this counter.
\<close>

theorem edit_partial_update:
  assumes "load_tasks f = Inr (ts, n)" and "command a = ''edit''" and "arg_id a = Some i"
    and "i \<in> task_id ` set ts"
  shows "\<exists>r k t'. main a f = Inr r \<and> next_id r = n
     \<and> k < length ts \<and> task_id (ts ! k) = i \<and> tasks r = ts[k := t']
     \<and> task_id t' = task_id (ts ! k)
     \<and> (estimate a = None \<longrightarrow> task_estimate t' = task_estimate (ts ! k))
     \<and> (description a = None \<longrightarrow> task_description t' = task_description (ts ! k))
     \<and> (written r = [] \<and> tasks_file r = f
        \<or> written r = [(tasks r, n)] \<and> tasks_file r = Some (Object (Some (tasks r)) (Some n)))"
proof -
  from find_task_member [OF assms(4)] obtain k where k: "find_task ts i = Some k" ..
  from find_task_Some [OF k] have kl: "k < length ts" and ki: "task_id (ts ! k) = i"
    by simp_all
  let ?r = "\<lparr>stdout = [], tasks_file = f, written = [], tasks = ts, next_id = n\<rparr>"
  have m: "main a f = Inr (main_edit a ?r)"
    using assms(1,2) by (simp add: main_loaded)
  show ?thesis
  proof (cases "i = 0")
    case True
    with assms(3)
    have "main_edit a ?r = print ''Error: Task ID is required for 'edit' command.'' ?r"
      by (simp add: main_edit_def)
    with m kl ki show ?thesis
      by (intro exI [of _ "main_edit a ?r"] exI [of _ k] exI [of _ "ts ! k"])
        (simp add: print_def)
  next
    case False
    note e = main_edit_found [OF k assms(3) False, of f n]
    let ?t1 = "if description a = None \<or> description a = Some [] then ts ! k
               else (ts ! k)\<lparr>task_description := the (description a)\<rparr>"
    let ?t2 = "case estimate a of None \<Rightarrow> ?t1
               | Some e \<Rightarrow> if e < 0 then ?t1 else ?t1\<lparr>task_estimate := e\<rparr>"
    show ?thesis
      using m kl ki
      by (intro exI [of _ "main_edit a ?r"] exI [of _ k] exI [of _ ?t2])
        (auto simp add: e Let_def split: option.splits)
  qed
qed

text \<open>The second scenario of the specification: \<^verbatim>\<open>edit --id 1 --estimate 5\<close>.\<close>

theorem edit_partial_update_witness:
  "load_tasks (Some (Object (Some [\<lparr>task_id = 1, task_description = ''write spec'', task_estimate = 3\<rparr>]) (Some 2)))
     = Inr ([\<lparr>task_id = 1, task_description = ''write spec'', task_estimate = 3\<rparr>], 2)
   \<and> 1 \<in> task_id ` set [\<lparr>task_id = 1, task_description = ''write spec'', task_estimate = 3\<rparr>]
   \<and> (\<exists>r t'. main \<lparr>command = ''edit'', description = None, estimate = Some 5, arg_id = Some 1\<rparr>
          (Some (Object (Some [\<lparr>task_id = 1, task_description = ''write spec'', task_estimate = 3\<rparr>]) (Some 2))) = Inr r
     \<and> next_id r = 2 \<and> tasks r = [t'] \<and> task_id t' = 1 \<and> task_description t' = ''write spec''
     \<and> (written r = [] \<and> tasks_file r = Some (Object (Some [\<lparr>task_id = 1, task_description = ''write spec'', task_estimate = 3\<rparr>]) (Some 2))
        \<or> written r = [(tasks r, 2)] \<and> tasks_file r = Some (Object (Some (tasks r)) (Some 2))))"
  using edit_partial_update [of
      "Some (Object (Some [\<lparr>task_id = 1, task_description = ''write spec'', task_estimate = 3\<rparr>]) (Some 2))"
      "[\<lparr>task_id = 1, task_description = ''write spec'', task_estimate = 3\<rparr>]" 2
      "\<lparr>command = ''edit'', description = None, estimate = Some 5, arg_id = Some 1\<rparr>" 1]
  by auto

subsection \<open>\<^verbatim>\<open>load_tasks\<close>\<close>

text \<open>
  C5. Without a file \<^verbatim>\<open>load_tasks\<close> returns no tasks and the counter 1. On a file that
  \<^verbatim>\<open>json.load\<close> cannot decode it raises the decoder's exception, which nothing in
  \<^verbatim>\<open>main\<close> catches, so the run ends there whatever the command. On a file holding
  an object with both keys it returns the tasks and the counter stored.
\<close>

theorem load_tasks_cases:
  "load_tasks None = Inr ([], 1)
   \<and> load_tasks (Some Malformed) = Inl JSONDecodeError
   \<and> main a (Some Malformed) = Inl JSONDecodeError
   \<and> load_tasks (Some (Object (Some ts) (Some n))) = Inr (ts, n)"
  by (simp add: main_def)

theorem load_tasks_cases_witness:
  "load_tasks None = Inr ([], 1)
   \<and> load_tasks (Some Malformed) = Inl JSONDecodeError
   \<and> main \<lparr>command = ''list'', description = None, estimate = None, arg_id = None\<rparr>
        (Some Malformed) = Inl JSONDecodeError
   \<and> load_tasks (Some (Object
        (Some [\<lparr>task_id = 1, task_description = ''write spec'', task_estimate = 3\<rparr>]) (Some 2)))
      = Inr ([\<lparr>task_id = 1, task_description = ''write spec'', task_estimate = 3\<rparr>], 2)"
  using load_tasks_cases [of
      "\<lparr>command = ''list'', description = None, estimate = None, arg_id = None\<rparr>"
      "[\<lparr>task_id = 1, task_description = ''write spec'', task_estimate = 3\<rparr>]" 2]
  by blast

subsection \<open>The counter and the ids\<close>

text \<open>
  C6. In every file reachable from the absent one by runs of \<^verbatim>\<open>main\<close>, whatever the
  commands, the counter is above the id of every task. And any run, on any document in
  which the counter is above every id, ends with tasks and counter of which this holds
  and leaves a file of which it holds.
\<close>

theorem next_id_above_ids:
  "(reachable f \<longrightarrow> (\<exists>ts n. load_tasks f = Inr (ts, n) \<and> (\<forall>t\<in>set ts. task_id t < n)))
   \<and> (load_tasks f = Inr (ts, n) \<and> (\<forall>t\<in>set ts. task_id t < n) \<longrightarrow>
        (\<exists>r. main a f = Inr r \<and> (\<forall>t\<in>set (tasks r). task_id t < next_id r)
          \<and> (\<exists>ts' n'. load_tasks (tasks_file r) = Inr (ts', n') \<and> (\<forall>t\<in>set ts'. task_id t < n'))))"
proof (intro conjI impI)
  assume "reachable f"
  from reachable_document [OF this]
  show "\<exists>ts n. load_tasks f = Inr (ts, n) \<and> (\<forall>t\<in>set ts. task_id t < n)"
    by blast
next
  assume h: "load_tasks f = Inr (ts, n) \<and> (\<forall>t\<in>set ts. task_id t < n)"
  then have l: "load_tasks f = Inr (ts, n)" and old: "\<forall>x\<in>set (map task_id ts). x < n"
    by simp_all
  from main_ids [OF l, of a] obtain r where r: "main a f = Inr r"
    and ids: "next_id r = n \<and> map task_id (tasks r) = map task_id ts
        \<or> next_id r = n + 1 \<and> map task_id (tasks r) = map task_id ts @ [n]"
    and fl: "tasks_file r = f \<or> tasks_file r = Some (Object (Some (tasks r)) (Some (next_id r)))"
    by blast
  from ids old have "\<forall>x\<in>set (map task_id (tasks r)). x < next_id r"
    by (elim disjE conjE) (simp only:, force)+
  then have new: "\<forall>t\<in>set (tasks r). task_id t < next_id r"
    by simp
  from fl h new
  have "\<exists>ts' n'. load_tasks (tasks_file r) = Inr (ts', n') \<and> (\<forall>t\<in>set ts'. task_id t < n')"
    by auto
  with r new
  show "\<exists>r. main a f = Inr r \<and> (\<forall>t\<in>set (tasks r). task_id t < next_id r)
          \<and> (\<exists>ts' n'. load_tasks (tasks_file r) = Inr (ts', n') \<and> (\<forall>t\<in>set ts'. task_id t < n'))"
    by blast
qed

text \<open>
  A second \<^verbatim>\<open>add\<close> on the file that the first one left; \<^const>\<open>list_all\<close> says of the
  elements of a list what the theorem says of the members of its set.
\<close>

theorem next_id_above_ids_witness:
  "reachable (Some (Object
     (Some [\<lparr>task_id = 1, task_description = ''write spec'', task_estimate = 3\<rparr>]) (Some 2)))
   \<and> (\<exists>r. main \<lparr>command = ''add'', description = Some ''b'', estimate = None, arg_id = None\<rparr>
         (Some (Object
           (Some [\<lparr>task_id = 1, task_description = ''write spec'', task_estimate = 3\<rparr>]) (Some 2)))
         = Inr r
       \<and> list_all (\<lambda>t. task_id t < next_id r) (tasks r)
       \<and> (\<exists>ts' n'. load_tasks (tasks_file r) = Inr (ts', n')
             \<and> list_all (\<lambda>t. task_id t < n') ts'))"
  using reachable_first_add
    next_id_above_ids [of
      "Some (Object
         (Some [\<lparr>task_id = 1, task_description = ''write spec'', task_estimate = 3\<rparr>]) (Some 2))"
      "[\<lparr>task_id = 1, task_description = ''write spec'', task_estimate = 3\<rparr>]" 2
      "\<lparr>command = ''add'', description = Some ''b'', estimate = None, arg_id = None\<rparr>"]
  by (simp add: list_all_iff)

subsection \<open>\<^verbatim>\<open>add\<close>, then \<^verbatim>\<open>view\<close>\<close>

text \<open>
  C7. A run of \<^verbatim>\<open>add\<close> with a description that is not empty and an estimate that is
  not negative, then a run of \<^verbatim>\<open>view\<close> on the file the first left, with the id of the
  task added: the search loop stops at the task added, and the three lines printed show
  its id, its description and its estimate. The document the first run starts from has a
  positive counter that is above every id, which holds of every file the program leaves
  when it starts without one (\<open>reachable_document\<close>).
\<close>

theorem add_then_view:
  assumes "load_tasks f = Inr (ts, n)" and "0 < n" and "\<forall>t\<in>set ts. task_id t < n"
    and "command a = ''add''" and "description a = Some d" and "estimate a = Some e"
    and "d \<noteq> []" and "0 \<le> e"
    and "command v = ''view''" and "arg_id v = Some n"
  shows "\<exists>r. main a f = Inr r
     \<and> last (tasks r) = \<lparr>task_id = n, task_description = d, task_estimate = e\<rparr>
     \<and> find_task (tasks r) n = Some (length ts)
     \<and> tasks r ! length ts = \<lparr>task_id = n, task_description = d, task_estimate = e\<rparr>
     \<and> main v (tasks_file r) = Inr
         \<lparr>stdout = [''Task ID: '' @ str_int n, ''Description: '' @ d,
                     ''Estimate: '' @ str_int e @ '' hours''],
          tasks_file = tasks_file r, written = [], tasks = tasks r, next_id = next_id r\<rparr>"
proof -
  let ?t = "\<lparr>task_id = n, task_description = d, task_estimate = e\<rparr>"
  let ?f' = "Some (Object (Some (ts @ [?t])) (Some (n + 1)))"
  from assms(3) have "\<forall>t\<in>set ts. task_id t \<noteq> n"
    by auto
  then have found: "find_task (ts @ [?t]) n = Some (length ts)"
    by (simp add: find_task_append)
  have add: "main a f = Inr (main_add a \<lparr>stdout = [], tasks_file = f, written = [], tasks = ts, next_id = n\<rparr>)"
    using assms(1,4) by (simp add: main_loaded)
  have r: "tasks (main_add a \<lparr>stdout = [], tasks_file = f, written = [], tasks = ts, next_id = n\<rparr>) = ts @ [?t]"
    "next_id (main_add a \<lparr>stdout = [], tasks_file = f, written = [], tasks = ts, next_id = n\<rparr>) = n + 1"
    "tasks_file (main_add a \<lparr>stdout = [], tasks_file = f, written = [], tasks = ts, next_id = n\<rparr>) = ?f'"
    using assms(5-8) by (simp_all add: main_add_def save_tasks_def print_def Let_def)
  have "load_tasks ?f' = Inr (ts @ [?t], n + 1)"
    by simp
  then have view: "main v ?f' = Inr (main_view v
      \<lparr>stdout = [], tasks_file = ?f', written = [], tasks = ts @ [?t], next_id = n + 1\<rparr>)"
    using assms(9) by (simp add: main_loaded)
  have "main_view v
      \<lparr>stdout = [], tasks_file = ?f', written = [], tasks = ts @ [?t], next_id = n + 1\<rparr>
    = \<lparr>stdout = [''Task ID: '' @ str_int n, ''Description: '' @ d,
                     ''Estimate: '' @ str_int e @ '' hours''],
          tasks_file = ?f', written = [], tasks = ts @ [?t], next_id = n + 1\<rparr>"
    using assms(2,10) found by (simp add: main_view_def print_def Let_def)
  with add r view found show ?thesis
    by simp
qed

theorem add_then_view_witness:
  "\<exists>r. main \<lparr>command = ''add'', description = Some ''write spec'', estimate = Some 3,
         arg_id = None\<rparr> None = Inr r
     \<and> last (tasks r) = \<lparr>task_id = 1, task_description = ''write spec'', task_estimate = 3\<rparr>
     \<and> find_task (tasks r) 1 = Some 0
     \<and> tasks r ! 0 = \<lparr>task_id = 1, task_description = ''write spec'', task_estimate = 3\<rparr>
     \<and> main \<lparr>command = ''view'', description = None, estimate = None, arg_id = Some 1\<rparr>
         (tasks_file r) = Inr
         \<lparr>stdout = [''Task ID: 1'', ''Description: write spec'', ''Estimate: 3 hours''],
          tasks_file = tasks_file r, written = [], tasks = tasks r, next_id = next_id r\<rparr>"
  using add_then_view [of None "[]" 1
      "\<lparr>command = ''add'', description = Some ''write spec'', estimate = Some 3, arg_id = None\<rparr>"
      "''write spec''" 3
      "\<lparr>command = ''view'', description = None, estimate = None, arg_id = Some 1\<rparr>"]
  by (simp add: str_int_1 str_int_3)

subsection \<open>The order of assignment and validation in \<^verbatim>\<open>edit\<close>\<close>

text \<open>
  C8. \<^verbatim>\<open>edit\<close> on the id of a task of the document, with a description that is not
  empty and a negative estimate: the run prints the error of line 93, \<^verbatim>\<open>save_tasks\<close>
  is not called and the file is as before, but in \<^verbatim>\<open>tasks\<close> the task found already
  has the new description (line 89 runs before line 92). Ids are positive, as in every
  document the program writes, so the id is not the 0 that line 77 rejects.
\<close>

theorem edit_description_before_estimate_check:
  assumes "load_tasks f = Inr (ts, n)" and "\<forall>t\<in>set ts. 0 < task_id t"
    and "i \<in> task_id ` set ts"
    and "command a = ''edit''" and "arg_id a = Some i"
    and "description a = Some d" and "d \<noteq> []" and "estimate a = Some e" and "e < 0"
  shows "\<exists>k. k < length ts \<and> task_id (ts ! k) = i \<and> main a f = Inr
     \<lparr>stdout = [''Error: Estimate cannot be negative.''],
      tasks_file = f, written = [],
      tasks = ts[k := (ts ! k)\<lparr>task_description := d\<rparr>], next_id = n\<rparr>"
proof -
  from assms(2,3) have i: "i \<noteq> 0"
    by auto
  from find_task_member [OF assms(3)] obtain k where k: "find_task ts i = Some k" ..
  from find_task_Some [OF k] have "k < length ts" "task_id (ts ! k) = i"
    by simp_all
  moreover have "main a f = Inr
     \<lparr>stdout = [''Error: Estimate cannot be negative.''],
      tasks_file = f, written = [],
      tasks = ts[k := (ts ! k)\<lparr>task_description := d\<rparr>], next_id = n\<rparr>"
    using assms(1,4,6-9) by (simp add: main_loaded main_edit_found [OF k assms(5) i])
  ultimately show ?thesis
    by blast
qed

theorem edit_description_before_estimate_check_witness:
  "main \<lparr>command = ''edit'', description = Some ''b'', estimate = Some (- 1), arg_id = Some 1\<rparr>
     (Some (Object (Some [\<lparr>task_id = 1, task_description = ''a'', task_estimate = 0\<rparr>]) (Some 2)))
   = Inr \<lparr>stdout = [''Error: Estimate cannot be negative.''],
      tasks_file =
        Some (Object (Some [\<lparr>task_id = 1, task_description = ''a'', task_estimate = 0\<rparr>]) (Some 2)),
      written = [],
      tasks = [\<lparr>task_id = 1, task_description = ''b'', task_estimate = 0\<rparr>],
      next_id = 2\<rparr>"
  using edit_description_before_estimate_check [of
      "Some (Object (Some [\<lparr>task_id = 1, task_description = ''a'', task_estimate = 0\<rparr>]) (Some 2))"
      "[\<lparr>task_id = 1, task_description = ''a'', task_estimate = 0\<rparr>]" 2 1
      "\<lparr>command = ''edit'', description = Some ''b'', estimate = Some (- 1), arg_id = Some 1\<rparr>"
      "''b''" "- 1"]
  by simp

subsection \<open>The id 0 and negative ids\<close>

text \<open>
  C9. \<^verbatim>\<open>view\<close> and \<^verbatim>\<open>edit\<close> with the id 0 print that the id is required (lines 61
  and 78), on every document, and change nothing: \<^verbatim>\<open>not args.id\<close> holds of 0 as it
  does of \<^verbatim>\<open>None\<close>. A negative id passes that test and goes through the search; on a
  document whose ids are positive the search fails and the not-found message is printed.
\<close>

theorem zero_id_is_missing_id:
  assumes "load_tasks f = Inr (ts, n)"
  shows "(command a = ''view'' \<and> arg_id a = Some 0 \<longrightarrow> main a f = Inr
            \<lparr>stdout = [''Error: Task ID is required for 'view' command.''],
             tasks_file = f, written = [], tasks = ts, next_id = n\<rparr>)
     \<and> (command a = ''edit'' \<and> arg_id a = Some 0 \<longrightarrow> main a f = Inr
            \<lparr>stdout = [''Error: Task ID is required for 'edit' command.''],
             tasks_file = f, written = [], tasks = ts, next_id = n\<rparr>)
     \<and> ((command a = ''view'' \<or> command a = ''edit'') \<and> arg_id a = Some i \<and> i < 0
          \<and> (\<forall>t\<in>set ts. 0 < task_id t) \<longrightarrow> main a f = Inr
            \<lparr>stdout = [''Error: Task with ID '' @ str_int i @ '' not found.''],
             tasks_file = f, written = [], tasks = ts, next_id = n\<rparr>)"
proof (intro conjI impI)
  assume "command a = ''view'' \<and> arg_id a = Some 0"
  with assms show "main a f = Inr
            \<lparr>stdout = [''Error: Task ID is required for 'view' command.''],
             tasks_file = f, written = [], tasks = ts, next_id = n\<rparr>"
    by (simp add: main_loaded main_view_def print_def)
next
  assume "command a = ''edit'' \<and> arg_id a = Some 0"
  with assms show "main a f = Inr
            \<lparr>stdout = [''Error: Task ID is required for 'edit' command.''],
             tasks_file = f, written = [], tasks = ts, next_id = n\<rparr>"
    by (simp add: main_loaded main_edit_def print_def)
next
  assume h: "(command a = ''view'' \<or> command a = ''edit'') \<and> arg_id a = Some i \<and> i < 0
          \<and> (\<forall>t\<in>set ts. 0 < task_id t)"
  then have "\<forall>t\<in>set ts. task_id t \<noteq> i"
    by auto
  then have "find_task ts i = None"
    by (simp add: find_task_None)
  with h assms show "main a f = Inr
            \<lparr>stdout = [''Error: Task with ID '' @ str_int i @ '' not found.''],
             tasks_file = f, written = [], tasks = ts, next_id = n\<rparr>"
    by (auto simp add: main_loaded main_view_def main_edit_def print_def)
qed

theorem zero_id_is_missing_id_witness:
  "main \<lparr>command = ''view'', description = None, estimate = None, arg_id = Some 0\<rparr>
     (Some (Object (Some [\<lparr>task_id = 1, task_description = ''a'', task_estimate = 0\<rparr>]) (Some 2)))
   = Inr \<lparr>stdout = [''Error: Task ID is required for 'view' command.''],
      tasks_file =
        Some (Object (Some [\<lparr>task_id = 1, task_description = ''a'', task_estimate = 0\<rparr>]) (Some 2)),
      written = [],
      tasks = [\<lparr>task_id = 1, task_description = ''a'', task_estimate = 0\<rparr>], next_id = 2\<rparr>
   \<and> main \<lparr>command = ''edit'', description = Some ''b'', estimate = None, arg_id = Some 0\<rparr>
     (Some (Object (Some [\<lparr>task_id = 1, task_description = ''a'', task_estimate = 0\<rparr>]) (Some 2)))
   = Inr \<lparr>stdout = [''Error: Task ID is required for 'edit' command.''],
      tasks_file =
        Some (Object (Some [\<lparr>task_id = 1, task_description = ''a'', task_estimate = 0\<rparr>]) (Some 2)),
      written = [],
      tasks = [\<lparr>task_id = 1, task_description = ''a'', task_estimate = 0\<rparr>], next_id = 2\<rparr>
   \<and> main \<lparr>command = ''view'', description = None, estimate = None, arg_id = Some (- 1)\<rparr>
     (Some (Object (Some [\<lparr>task_id = 1, task_description = ''a'', task_estimate = 0\<rparr>]) (Some 2)))
   = Inr \<lparr>stdout = [''Error: Task with ID -1 not found.''],
      tasks_file =
        Some (Object (Some [\<lparr>task_id = 1, task_description = ''a'', task_estimate = 0\<rparr>]) (Some 2)),
      written = [],
      tasks = [\<lparr>task_id = 1, task_description = ''a'', task_estimate = 0\<rparr>], next_id = 2\<rparr>"
  using
    zero_id_is_missing_id [of
      "Some (Object (Some [\<lparr>task_id = 1, task_description = ''a'', task_estimate = 0\<rparr>]) (Some 2))"
      "[\<lparr>task_id = 1, task_description = ''a'', task_estimate = 0\<rparr>]" 2
      "\<lparr>command = ''view'', description = None, estimate = None, arg_id = Some 0\<rparr>" 0]
    zero_id_is_missing_id [of
      "Some (Object (Some [\<lparr>task_id = 1, task_description = ''a'', task_estimate = 0\<rparr>]) (Some 2))"
      "[\<lparr>task_id = 1, task_description = ''a'', task_estimate = 0\<rparr>]" 2
      "\<lparr>command = ''edit'', description = Some ''b'', estimate = None, arg_id = Some 0\<rparr>" 0]
    zero_id_is_missing_id [of
      "Some (Object (Some [\<lparr>task_id = 1, task_description = ''a'', task_estimate = 0\<rparr>]) (Some 2))"
      "[\<lparr>task_id = 1, task_description = ''a'', task_estimate = 0\<rparr>]" 2
      "\<lparr>command = ''view'', description = None, estimate = None, arg_id = Some (- 1)\<rparr>" "- 1"]
  by (simp add: str_int_minus_1)

subsection \<open>\<^verbatim>\<open>edit\<close> with the empty description\<close>

text \<open>
  C10. \<^verbatim>\<open>edit\<close> on the id of a task of the document, with the empty string as
  description and no estimate: line 88 takes the empty string for no description, so no
  task changes and no error is printed; \<^verbatim>\<open>save_tasks\<close> writes the tasks and the
  counter as they were loaded, and the run prints that the task was updated. Ids are
  positive, as in every document the program writes.
\<close>

theorem edit_empty_description:
  assumes "load_tasks f = Inr (ts, n)" and "\<forall>t\<in>set ts. 0 < task_id t"
    and "i \<in> task_id ` set ts"
    and "command a = ''edit''" and "arg_id a = Some i"
    and "description a = Some []" and "estimate a = None"
  shows "main a f = Inr
     \<lparr>stdout = [''Task '' @ str_int i @ '' updated.''],
      tasks_file = Some (Object (Some ts) (Some n)), written = [(ts, n)],
      tasks = ts, next_id = n\<rparr>"
proof -
  from assms(2,3) have i: "i \<noteq> 0"
    by auto
  from find_task_member [OF assms(3)] obtain k where k: "find_task ts i = Some k" ..
  show ?thesis
    using assms(1,4,6,7) by (simp add: main_loaded main_edit_found [OF k assms(5) i])
qed

theorem edit_empty_description_witness:
  "main \<lparr>command = ''edit'', description = Some [], estimate = None, arg_id = Some 1\<rparr>
     (Some (Object (Some [\<lparr>task_id = 1, task_description = ''a'', task_estimate = 0\<rparr>]) (Some 2)))
   = Inr \<lparr>stdout = [''Task 1 updated.''],
      tasks_file =
        Some (Object (Some [\<lparr>task_id = 1, task_description = ''a'', task_estimate = 0\<rparr>]) (Some 2)),
      written = [([\<lparr>task_id = 1, task_description = ''a'', task_estimate = 0\<rparr>], 2)],
      tasks = [\<lparr>task_id = 1, task_description = ''a'', task_estimate = 0\<rparr>], next_id = 2\<rparr>"
  using edit_empty_description [of
      "Some (Object (Some [\<lparr>task_id = 1, task_description = ''a'', task_estimate = 0\<rparr>]) (Some 2))"
      "[\<lparr>task_id = 1, task_description = ''a'', task_estimate = 0\<rparr>]" 2 1
      "\<lparr>command = ''edit'', description = Some [], estimate = None, arg_id = Some 1\<rparr>"]
  by (simp add: str_int_1)

end
